theory Spec2Isabelle
  imports Complex_Main "HOL-Library.Sublist"
begin

section \<open>JavaScript values used by the GyanForge client\<close>

text \<open>
  The client is JavaScript. Strings are modelled as \<open>string\<close>, objects received as
  JSON as the datatype \<open>jsval\<close>, and the results of numeric expressions as \<open>jsnum\<close>:
  an exact rational, an infinity, or \<open>NaN\<close> (the result of \<open>0 / 0\<close> and of converting
  what is not a number). Rounding of IEEE doubles is not modelled: \<open>Num r\<close> stands for
  the double nearest to \<open>r\<close>.
\<close>

datatype jsnum = Num rat | PosInf | NegInf | NaN

datatype jsval =
    JUndefined
  | JNull
  | JBool bool
  | JNum rat
  | JStr string
  | JArr "jsval list"
  | JObj "(string \<times> jsval) list"


text \<open>\<open>x * k\<close> for a positive rational constant \<open>k\<close>.\<close>

definition js_times :: "jsnum \<Rightarrow> rat \<Rightarrow> jsnum" where
  "js_times x k =
     (case x of Num r \<Rightarrow> Num (r * k) | PosInf \<Rightarrow> PosInf | NegInf \<Rightarrow> NegInf | NaN \<Rightarrow> NaN)"


text \<open>\<open>x > k\<close>.\<close>

definition js_gt :: "jsnum \<Rightarrow> rat \<Rightarrow> bool" where
  "js_gt x k = (case x of Num r \<Rightarrow> k < r | PosInf \<Rightarrow> True | NegInf \<Rightarrow> False | NaN \<Rightarrow> False)"




section \<open>The mock quiz grading of \<open>apiService.old.js\<close>\<close>

text \<open>
  \<open>answers\<close> is the object built by the quiz page: question index to selected answer.
  It is modelled by the list of its entries (\<open>Object.entries\<close>), so that
  \<open>Object.values\<close> is \<open>map snd\<close> and \<open>Object.keys(answers).length\<close> is \<open>length\<close>.
\<close>

type_synonym answers = "(nat \<times> string) list"









section \<open>The mock modules and the chat quiz of the learning page\<close>

record quiz_question =
  question :: string
  options :: "string list"
  correct_answer :: string


definition mockModules_1_quiz_questions :: "quiz_question list" where
  "mockModules_1_quiz_questions =
     [ \<lparr> question = ''What is the syntax for arrow functions?'',
         options = [''() => {}'', ''function() {}'', ''=> () {}'', ''() -> {}''],
         correct_answer = ''() => {}'' \<rparr>,
       \<lparr> question = ''Which feature allows string interpolation?'',
         options = [''Arrow functions'', ''Template literals'', ''Destructuring'', ''Promises''],
         correct_answer = ''Template literals'' \<rparr> ]"

text \<open>
  \<open>{...prev, [k]: v}\<close> on an object whose keys are array indices: the entry is
  replaced or added, and the entries stay in ascending key order, as JavaScript
  enumerates integer keys.
\<close>

fun obj_set :: "nat \<Rightarrow> string \<Rightarrow> answers \<Rightarrow> answers" where
  "obj_set k v [] = [(k, v)]"
| "obj_set k v ((k', v') # rest) =
     (if k = k' then (k, v) # rest
      else if k < k' then (k, v) # (k', v') # rest
      else (k', v') # obj_set k v rest)"

datatype sender = user | bot

record chat_message =
  sender_type :: sender
  message :: string
  timestamp :: nat

record learning_module =
  quiz_questions :: "quiz_question list option"

text \<open>
  The part of the state of \<open>LearningPage\<close> that \<open>handleAnswerSelect\<close> reads and writes.
  \<open>timeouts\<close> lists the delays of the callbacks handed to \<open>setTimeout\<close>.
\<close>

record learning_state =
  module :: "learning_module option"
  quizMode :: bool
  quizAnswers :: answers
  selectedAnswer :: string
  chatMessages :: "chat_message list"
  timeouts :: "nat list"

datatype js_exception = TypeError | SyntaxError | InvalidCharacterError








section \<open>The API client of \<open>apiService.js\<close>\<close>

text \<open>Truthiness of a value, as \<open>if (v)\<close> and \<open>v || w\<close> test it.\<close>

fun truthy :: "jsval \<Rightarrow> bool" where
  "truthy JUndefined = False"
| "truthy JNull = False"
| "truthy (JBool b) = b"
| "truthy (JNum r) = (r \<noteq> 0)"
| "truthy (JStr s) = (s \<noteq> [])"
| "truthy (JArr xs) = True"
| "truthy (JObj kvs) = True"

definition js_or :: "jsval \<Rightarrow> jsval \<Rightarrow> jsval" where
  "js_or a b = (if truthy a then a else b)"

text \<open>
  \<open>v?.k\<close> for a property name \<open>k\<close> that no prototype defines (\<open>detail\<close>, \<open>message\<close>,
  \<open>exp\<close>): the own property of an object, \<open>undefined\<close> for every other value.
\<close>

fun get_prop :: "jsval \<Rightarrow> string \<Rightarrow> jsval" where
  "get_prop (JObj kvs) k = (case map_of kvs k of Some v \<Rightarrow> v | None \<Rightarrow> JUndefined)"
| "get_prop v k = JUndefined"

text \<open>
  The browser state the client touches: \<open>localStorage\<close> and \<open>window.location.href\<close>.
\<close>

record browser =
  localStorage :: "string \<rightharpoonup> string"
  location_href :: string

record http_response =
  status :: nat
  data :: jsval

text \<open>
  The error a request is rejected with: \<open>response\<close> is present when the server
  answered, \<open>err_message\<close> is the error's \<open>message\<close>.
\<close>

record axios_error =
  response :: "http_response option"
  err_message :: jsval

text \<open>
  A request as the client hands it to axios: verb, path, JSON body (the entries of the
  object literal, in order) and the \<open>Authorization\<close> header.
\<close>

record request =
  verb :: string
  url :: string
  body :: "(string \<times> jsval) list option"
  authorization :: "string option"

text \<open>What the network and the server answer to a request: a parameter.\<close>

type_synonym network = "request \<Rightarrow> axios_error + http_response"

text \<open>\<open>error.response?.status\<close>.\<close>

definition response_status :: "axios_error \<Rightarrow> nat option" where
  "response_status e = (case response e of None \<Rightarrow> None | Some r \<Rightarrow> Some (status r))"

definition logout :: "browser \<Rightarrow> browser" where
  "logout b = b\<lparr> localStorage := (localStorage b)(''authToken'' := None) \<rparr>"

text \<open>The request interceptor of the constructor.\<close>

definition request_interceptor :: "browser \<Rightarrow> request \<Rightarrow> request" where
  "request_interceptor b config =
     (case localStorage b ''authToken'' of
        None \<Rightarrow> config
      | Some token \<Rightarrow>
          if token \<noteq> [] then config\<lparr> authorization := Some (''Bearer '' @ token) \<rparr>
          else config)"

text \<open>
  The response interceptor of the constructor. A fulfilled response is passed on; a
  rejection with status 401 logs out and redirects, and every rejection is passed on as a
  rejection (\<open>Inl\<close>).
\<close>

definition response_fulfilled :: "http_response \<Rightarrow> browser \<Rightarrow> (axios_error + http_response) \<times> browser" where
  "response_fulfilled r b = (Inr r, b)"

definition response_rejected :: "axios_error \<Rightarrow> browser \<Rightarrow> (axios_error + http_response) \<times> browser" where
  "response_rejected e b =
     (if response_status e = Some 401
      then (Inl e, (logout b)\<lparr> location_href := ''/login'' \<rparr>)
      else (Inl e, b))"

text \<open>One request through \<open>this.api\<close>: request interceptor, network, response interceptor.\<close>

definition api_send :: "network \<Rightarrow> request \<Rightarrow> browser \<Rightarrow> (axios_error + http_response) \<times> browser" where
  "api_send net config b =
     (case net (request_interceptor b config) of
        Inr r \<Rightarrow> response_fulfilled r b
      | Inl e \<Rightarrow> response_rejected e b)"

text \<open>
  The \<open>Error\<close> object built by \<open>_handleError\<close>: \<open>api_message\<close> is the argument of
  \<open>new Error(...)\<close> (a string is the object's \<open>message\<close> as it is, any other value is
  turned into a string by the constructor), \<open>api_status\<close> its \<open>status\<close> field (absent
  when the error has no response) and \<open>originalError\<close> the error that was caught.
\<close>

record api_error =
  api_message :: jsval
  api_status :: "nat option"
  originalError :: axios_error

definition response_data :: "axios_error \<Rightarrow> jsval" where
  "response_data e = (case response e of None \<Rightarrow> JUndefined | Some r \<Rightarrow> data r)"

definition handleError :: "axios_error \<Rightarrow> string \<Rightarrow> api_error" where
  "handleError e defaultMessage =
     (let errorMessage =
            js_or (get_prop (response_data e) ''detail'')
              (js_or (get_prop (response_data e) ''message'')
                 (js_or (err_message e) (JStr defaultMessage)))
      in \<lparr> api_message = errorMessage,
           api_status = response_status e,
           originalError = e \<rparr>)"

text \<open>
  The methods of \<open>ApiService\<close> whose body is \<open>try { ... } catch (error) { throw
  this._handleError(error, default) }\<close>, and the default message of each.
\<close>

datatype api_method =
    M_login | M_register | M_getCurrentUser | M_generateModule | M_getModule
  | M_getUserModules | M_deleteModule | M_submitQuiz | M_getAssignmentLatex
  | M_getAssignmentPdf | M_generateLearningPath | M_sendChatMessage | M_downloadModulePDF

fun defaultMessage :: "api_method \<Rightarrow> string" where
  "defaultMessage M_login = ''Login failed''"
| "defaultMessage M_register = ''Registration failed''"
| "defaultMessage M_getCurrentUser = ''Failed to get user info''"
| "defaultMessage M_generateModule = ''Failed to generate module''"
| "defaultMessage M_getModule = ''Failed to fetch module''"
| "defaultMessage M_getUserModules = ''Failed to fetch user modules''"
| "defaultMessage M_deleteModule = ''Failed to delete module''"
| "defaultMessage M_submitQuiz = ''Failed to submit quiz''"
| "defaultMessage M_getAssignmentLatex = ''Failed to fetch assignment LaTeX''"
| "defaultMessage M_getAssignmentPdf = ''Failed to fetch assignment PDF''"
| "defaultMessage M_generateLearningPath = ''Failed to generate learning path''"
| "defaultMessage M_sendChatMessage = ''Failed to send chat message''"
| "defaultMessage M_downloadModulePDF = ''Failed to download PDF''"

text \<open>The \<open>catch\<close> clause of method \<open>m\<close>: what it throws for the error it caught.\<close>

definition method_catch :: "api_method \<Rightarrow> axios_error \<Rightarrow> api_error" where
  "method_catch m e = handleError e (defaultMessage m)"

text \<open>
  A method that sends one request and returns \<open>response.data\<close>: the shape of
  \<open>generateModule\<close>, \<open>getModule\<close>, \<open>getUserModules\<close>, \<open>deleteModule\<close> and \<open>submitQuiz\<close>.
\<close>

definition api_method_call ::
  "api_method \<Rightarrow> request \<Rightarrow> network \<Rightarrow> browser \<Rightarrow> (api_error + jsval) \<times> browser" where
  "api_method_call m config net b =
     (case api_send net config b of
        (Inr r, b') \<Rightarrow> (Inr (data r), b')
      | (Inl e, b') \<Rightarrow> (Inl (method_catch m e), b'))"

text \<open>Decimal digits of a number, as a template string prints it.\<close>

fun decimal :: "nat \<Rightarrow> string" where
  "decimal n = (if n < 10 then [char_of (48 + n)]
                else decimal (n div 10) @ [char_of (48 + n mod 10)])"

text \<open>A module id: a number (database id) or a string (mock id).\<close>

datatype module_id = NumId nat | StrId string

fun id_text :: "module_id \<Rightarrow> string" where
  "id_text (NumId n) = decimal n"
| "id_text (StrId s) = s"

text \<open>
  \<open>generateModule(prompt, difficulty = 'medium', duration = 30, backgroundKnowledge = '')\<close>:
  an argument left out is \<open>None\<close> and takes its default.
\<close>

definition generateModule_request ::
  "string \<Rightarrow> string option \<Rightarrow> nat option \<Rightarrow> string option \<Rightarrow> request" where
  "generateModule_request prompt difficulty duration backgroundKnowledge =
     (let difficulty' = (case difficulty of None \<Rightarrow> ''medium'' | Some d \<Rightarrow> d);
          duration' = (case duration of None \<Rightarrow> 30 | Some n \<Rightarrow> n);
          backgroundKnowledge' = (case backgroundKnowledge of None \<Rightarrow> [] | Some k \<Rightarrow> k)
      in \<lparr> verb = ''POST'', url = ''/api/v1/modules/generate'',
           body = Some [(''prompt'', JStr prompt),
                        (''background_knowledge'', JStr backgroundKnowledge'),
                        (''user_id'', JNull)],
           authorization = None \<rparr>)"

definition generateModule ::
  "string \<Rightarrow> string option \<Rightarrow> nat option \<Rightarrow> string option \<Rightarrow> network \<Rightarrow> browser
     \<Rightarrow> (api_error + jsval) \<times> browser" where
  "generateModule prompt difficulty duration backgroundKnowledge =
     api_method_call M_generateModule
       (generateModule_request prompt difficulty duration backgroundKnowledge)"

text \<open>
  The request of \<open>generateModule(prompt, difficulty = 'medium', duration = 30)\<close> of
  \<open>apiService.old.js\<close> (mock switched off), for the user id \<open>getCurrentUser\<close> returned.
\<close>

definition generateModule_old_request ::
  "jsval \<Rightarrow> string \<Rightarrow> string option \<Rightarrow> nat option \<Rightarrow> request" where
  "generateModule_old_request user_id prompt difficulty duration =
     \<lparr> verb = ''POST'', url = ''/api/v1/modules/generate'',
       body = Some [(''user_id'', user_id),
                    (''prompt'', JStr prompt),
                    (''difficulty'', JStr (case difficulty of None \<Rightarrow> ''medium'' | Some d \<Rightarrow> d)),
                    (''duration'', JNum (of_nat (case duration of None \<Rightarrow> 30 | Some n \<Rightarrow> n)))],
       authorization = None \<rparr>"

definition deleteModule_request :: "module_id \<Rightarrow> request" where
  "deleteModule_request moduleId =
     \<lparr> verb = ''DELETE'', url = ''/api/v1/modules/'' @ id_text moduleId,
       body = None, authorization = None \<rparr>"

definition deleteModule :: "module_id \<Rightarrow> network \<Rightarrow> browser \<Rightarrow> (api_error + jsval) \<times> browser" where
  "deleteModule moduleId = api_method_call M_deleteModule (deleteModule_request moduleId)"

definition getModule_request :: "module_id \<Rightarrow> request" where
  "getModule_request moduleId =
     \<lparr> verb = ''GET'', url = ''/api/v1/modules/'' @ id_text moduleId,
       body = None, authorization = None \<rparr>"

definition getModule :: "module_id \<Rightarrow> network \<Rightarrow> browser \<Rightarrow> (api_error + jsval) \<times> browser" where
  "getModule moduleId = api_method_call M_getModule (getModule_request moduleId)"





text \<open>Sample values: a logged-in browser and two rejections.\<close>

definition demo_browser :: browser where
  "demo_browser =
     \<lparr> localStorage = [''authToken'' \<mapsto> ''abc.def.ghi''], location_href = ''/dashboard'' \<rparr>"

definition demo_error_401 :: axios_error where
  "demo_error_401 =
     \<lparr> response = Some \<lparr> status = 401, data = JObj [] \<rparr>,
       err_message = JStr ''Request failed with status code 401'' \<rparr>"

definition demo_error_500 :: axios_error where
  "demo_error_500 =
     \<lparr> response = Some \<lparr> status = 500,
                          data = JObj [(''message'', JStr ''ignored''),
                                       (''detail'', JStr ''Database unavailable'')] \<rparr>,
       err_message = JStr ''Request failed with status code 500'' \<rparr>"


section \<open>The dashboard\<close>

text \<open>
  A module as the dashboard lists it. \<open>id_m\<close> is the module's \<open>id\<close>; \<open>!==\<close> on two ids
  is inequality of \<open>module_id\<close> values (a number never equals a string).
\<close>

record module_item =
  id_m :: module_id
  title :: string
  content :: string
  difficulty :: string
  duration :: nat

record dashboard_state =
  modules :: "module_item list"
  alerts :: "string list"

text \<open>
  \<open>Dashboard.handleDeleteModule(moduleId, title)\<close>; \<open>confirmed\<close> is the user's answer
  to \<open>window.confirm\<close>.
\<close>

definition handleDeleteModule ::
  "bool \<Rightarrow> module_id \<Rightarrow> string \<Rightarrow> network \<Rightarrow> dashboard_state \<times> browser
     \<Rightarrow> dashboard_state \<times> browser" where
  "handleDeleteModule confirmed moduleId title' net sb =
     (if \<not> confirmed then sb
      else case deleteModule moduleId net (snd sb) of
             (Inr r, b') \<Rightarrow>
               ((fst sb)\<lparr> modules := filter (\<lambda>m. id_m m \<noteq> moduleId) (modules (fst sb)) \<rparr>, b')
           | (Inl e, b') \<Rightarrow>
               ((fst sb)\<lparr> alerts := alerts (fst sb)
                           @ [''Failed to delete module. Please try again.''] \<rparr>, b'))"

text \<open>The create form of the dashboard and the call \<open>handleCreateModule\<close> makes.\<close>

record new_module_form =
  prompt :: string
  form_difficulty :: string
  form_duration :: nat

definition initial_newModuleForm :: new_module_form where
  "initial_newModuleForm = \<lparr> prompt = [], form_difficulty = ''medium'', form_duration = 30 \<rparr>"

definition Dashboard_difficulty_options :: "string list" where
  "Dashboard_difficulty_options = [''easy'', ''medium'', ''hard'']"

definition handleCreateModule_request :: "new_module_form \<Rightarrow> request" where
  "handleCreateModule_request form =
     generateModule_request (prompt form) (Some (form_difficulty form))
       (Some (form_duration form)) None"

text \<open>Sample values: a dashboard with three modules.\<close>

definition demo_modules :: "module_item list" where
  "demo_modules =
     [ \<lparr> id_m = NumId 3, title = ''Python Data Structures'', content = ''Lists and tuples'',
         difficulty = ''easy'', duration = 25 \<rparr>,
       \<lparr> id_m = NumId 7, title = ''JavaScript ES6 Features'', content = ''Arrow functions'',
         difficulty = ''easy'', duration = 30 \<rparr>,
       \<lparr> id_m = StrId ''7'', title = ''Introduction to React Hooks'', content = ''Hooks'',
         difficulty = ''medium'', duration = 45 \<rparr> ]"


section \<open>The module form of \<open>EnhancedModules\<close>\<close>

record new_module_data =
  topic :: string
  nm_difficulty :: string

definition initial_newModuleData :: new_module_data where
  "initial_newModuleData = \<lparr> topic = [], nm_difficulty = ''Beginner'' \<rparr>"

definition EnhancedModules_difficulty_options :: "string list" where
  "EnhancedModules_difficulty_options = [''Beginner'', ''Intermediate'', ''Advanced'']"



datatype fetch_failure = NetworkError | InvalidJson




text \<open>\<open>JSON.stringify(newModuleData)\<close>, as the entries of the object.\<close>

definition newModuleData_json :: "new_module_data \<Rightarrow> (string \<times> jsval) list" where
  "newModuleData_json d = [(''topic'', JStr (topic d)), (''difficulty'', JStr (nm_difficulty d))]"

text \<open>
  The request of \<open>createModule\<close>. The token is read from the key \<open>token\<close>; a missing
  token prints as \<open>null\<close> in the template string.
\<close>

definition createModule_request :: "browser \<Rightarrow> new_module_data \<Rightarrow> request" where
  "createModule_request b d =
     \<lparr> verb = ''POST'', url = ''/api/v1/modules/generate'',
       body = Some (newModuleData_json d),
       authorization = Some (''Bearer '' @ (case localStorage b ''token'' of
                                              None \<Rightarrow> ''null'' | Some t \<Rightarrow> t)) \<rparr>"




section \<open>The token check of \<open>isAuthenticated\<close>\<close>

text \<open>\<open>s.split(sep)\<close> for a separator of one character.\<close>

fun split_on :: "char \<Rightarrow> string \<Rightarrow> string list" where
  "split_on sep [] = [[]]"
| "split_on sep (c # cs) =
     (if c = sep then [] # split_on sep cs
      else (case split_on sep cs of
              [] \<Rightarrow> [[c]]
            | w # ws \<Rightarrow> (c # w) # ws))"

text \<open>
  The argument of \<open>atob\<close> in \<open>atob(token.split('.')[1])\<close>: the second segment, or the text
  \<open>undefined\<close> when the token has no dot.
\<close>

definition payload_segment :: "string \<Rightarrow> string" where
  "payload_segment token =
     (case split_on CHR ''.'' token of
        w0 # w1 # ws \<Rightarrow> w1
      | _ \<Rightarrow> ''undefined'')"

text \<open>
  Conversion of a value to a number, as \<open>*\<close> applies it. The conversion of strings, arrays
  and objects is the platform's, \<open>coerce\<close>; \<open>None\<close> stands for a thrown \<open>TypeError\<close> (an
  object whose \<open>valueOf\<close> and \<open>toString\<close> are both shadowed by data).
\<close>

definition ToNumber :: "(jsval \<Rightarrow> jsnum option) \<Rightarrow> jsval \<Rightarrow> jsnum option" where
  "ToNumber coerce v =
     (case v of
        JUndefined \<Rightarrow> Some NaN
      | JNull \<Rightarrow> Some (Num 0)
      | JBool b \<Rightarrow> Some (Num (if b then 1 else 0))
      | JNum r \<Rightarrow> Some (Num r)
      | JStr s \<Rightarrow> coerce v
      | JArr xs \<Rightarrow> coerce v
      | JObj kvs \<Rightarrow> coerce v)"

text \<open>
  The body of the \<open>try\<close> block. \<open>atob\<close> and \<open>JSON.parse\<close> are the platform's: \<open>None\<close> is a
  thrown exception. \<open>now\<close> is \<open>Date.now()\<close>.
\<close>

definition isAuthenticated_try ::
  "(string \<Rightarrow> string option) \<Rightarrow> (string \<Rightarrow> jsval option) \<Rightarrow> (jsval \<Rightarrow> jsnum option) \<Rightarrow> rat
     \<Rightarrow> string \<Rightarrow> js_exception + bool" where
  "isAuthenticated_try atob JSON_parse coerce now token =
     (case atob (payload_segment token) of
        None \<Rightarrow> Inl InvalidCharacterError
      | Some decoded \<Rightarrow>
         (case JSON_parse decoded of
            None \<Rightarrow> Inl SyntaxError
          | Some payload \<Rightarrow>
              if payload = JNull \<or> payload = JUndefined then Inl TypeError
              else (case ToNumber coerce (get_prop payload ''exp'') of
                      None \<Rightarrow> Inl TypeError
                    | Some n \<Rightarrow> Inr (js_gt (js_times n 1000) now))))"

text \<open>\<open>isAuthenticated\<close>: \<open>Inl\<close> would be an exception that leaves the method.\<close>

definition isAuthenticated ::
  "(string \<Rightarrow> string option) \<Rightarrow> (string \<Rightarrow> jsval option) \<Rightarrow> (jsval \<Rightarrow> jsnum option) \<Rightarrow> rat
     \<Rightarrow> browser \<Rightarrow> js_exception + bool" where
  "isAuthenticated atob JSON_parse coerce now b =
     (case localStorage b ''authToken'' of
        None \<Rightarrow> Inr False
      | Some token \<Rightarrow>
          if token = [] then Inr False
          else (case isAuthenticated_try atob JSON_parse coerce now token of
                  Inl exception \<Rightarrow> Inr False
                | Inr r \<Rightarrow> Inr r))"

text \<open>Sample values: a decoder and a parser that know one payload.\<close>

definition demo_payload_text :: string where
  "demo_payload_text = ''{'' @ [CHR 0x22] @ ''exp'' @ [CHR 0x22] @ '':99}''"

definition demo_atob :: "string \<Rightarrow> string option" where
  "demo_atob s = (if s = ''eyJleHAiOjk5fQ'' then Some demo_payload_text else None)"

definition demo_JSON_parse :: "string \<Rightarrow> jsval option" where
  "demo_JSON_parse s = (if s = demo_payload_text then Some (JObj [(''exp'', JNum 99)]) else None)"

definition demo_token_browser :: browser where
  "demo_token_browser =
     \<lparr> localStorage = [''authToken'' \<mapsto> ''eyJhbGciOiJIUzI1NiJ9.eyJleHAiOjk5fQ.c2ln''],
       location_href = ''/dashboard'' \<rparr>"


section \<open>The countdown of the quiz page\<close>

text \<open>
  \<open>QuizPage\<close> is a React function component. Its state is the record below; the model
  makes explicit what React keeps for it:
  \<^item> \<open>timer\<close> is the interval the timer effect has set and not yet cleared, together
    with the \<open>answers\<close> that the \<open>handleSubmit\<close> of its callback closes over: the
    callback belongs to the render in which the effect ran;
  \<^item> \<open>submissions\<close> lists the answers of the calls of \<open>apiService.submitQuiz\<close>, in
    order;
  \<^item> \<open>mounted\<close> is false once the component is unmounted.
  The passing of a second is the event \<open>Tick\<close>: the interval's callback runs once.
\<close>

record quiz_state =
  quizStarted :: bool
  timeLeft :: "nat option"
  submitted :: bool
  qz_answers :: answers
  results :: "jsval option"
  qz_loading :: bool
  qz_error :: "string option"
  timer :: "answers option"
  submissions :: "answers list"
  mounted :: bool

definition initial_quiz_state :: quiz_state where
  "initial_quiz_state =
     \<lparr> quizStarted = False, timeLeft = None, submitted = False, qz_answers = [],
       results = None, qz_loading = True, qz_error = None, timer = None,
       submissions = [], mounted = True \<rparr>"

text \<open>
  The timer effect: the cleanup of its last run (\<open>clearInterval\<close>), then its body, which
  sets an interval when the quiz is started, time is left and the quiz is not submitted.
\<close>

definition timer_effect :: "quiz_state \<Rightarrow> quiz_state" where
  "timer_effect s =
     s\<lparr> timer := (if quizStarted s \<and> (case timeLeft s of None \<Rightarrow> False | Some n \<Rightarrow> 0 < n)
                       \<and> \<not> submitted s
                   then Some (qz_answers s) else None) \<rparr>"

text \<open>
  A render after a state change: the effect runs again only when one of its
  dependencies \<open>[quizStarted, timeLeft, submitted]\<close> has changed.
\<close>

definition rerender :: "quiz_state \<Rightarrow> quiz_state \<Rightarrow> quiz_state" where
  "rerender old new =
     (if quizStarted new = quizStarted old \<and> timeLeft new = timeLeft old
         \<and> submitted new = submitted old
      then new else timer_effect new)"

text \<open>\<open>loadModule\<close> has fetched a module with \<open>n\<close> quiz questions.\<close>

definition loadModule_done :: "nat \<Rightarrow> quiz_state \<Rightarrow> quiz_state" where
  "loadModule_done n s =
     rerender s (s\<lparr> timeLeft := (if 0 < n then Some (n * 120) else timeLeft s),
                    qz_loading := False \<rparr>)"

definition startQuiz :: "quiz_state \<Rightarrow> quiz_state" where
  "startQuiz s =
     rerender s (s\<lparr> quizStarted := True, qz_answers := [], submitted := False,
                    results := None \<rparr>)"

definition QuizPage_handleAnswerSelect :: "nat \<Rightarrow> string \<Rightarrow> quiz_state \<Rightarrow> quiz_state" where
  "QuizPage_handleAnswerSelect questionIndex answer s =
     rerender s (s\<lparr> qz_answers := obj_set questionIndex answer (qz_answers s) \<rparr>)"

text \<open>
  \<open>handleSubmit\<close> up to its \<open>await\<close>, for the \<open>answers\<close> its closure holds; the two ways
  the awaited call ends.
\<close>

definition handleSubmit :: "answers \<Rightarrow> quiz_state \<Rightarrow> quiz_state" where
  "handleSubmit captured s =
     s\<lparr> qz_loading := True, submissions := submissions s @ [captured] \<rparr>"

definition handleSubmit_resolved :: "jsval \<Rightarrow> quiz_state \<Rightarrow> quiz_state" where
  "handleSubmit_resolved r s =
     rerender s (s\<lparr> results := Some r, submitted := True, quizStarted := False,
                    qz_loading := False \<rparr>)"

definition handleSubmit_rejected :: "quiz_state \<Rightarrow> quiz_state" where
  "handleSubmit_rejected s =
     s\<lparr> qz_error := Some ''Failed to submit quiz. Please try again.'', qz_loading := False \<rparr>"

text \<open>
  The submit button, disabled while no answer is selected or a submission is under way;
  its handler is the \<open>handleSubmit\<close> of the current render.
\<close>

definition click_submit :: "quiz_state \<Rightarrow> quiz_state" where
  "click_submit s =
     (if qz_answers s = [] \<or> qz_loading s then s else handleSubmit (qz_answers s) s)"

text \<open>
  The callback of the interval: \<open>setTimeLeft(prev => ...)\<close>, where the updater calls the
  \<open>handleSubmit\<close> the callback closes over when \<open>prev <= 1\<close>.
\<close>

definition tick :: "quiz_state \<Rightarrow> quiz_state" where
  "tick s =
     (case timer s of
        None \<Rightarrow> s
      | Some captured \<Rightarrow>
          let prev = (case timeLeft s of None \<Rightarrow> 0 | Some n \<Rightarrow> n)
          in if prev \<le> 1 then rerender s ((handleSubmit captured s)\<lparr> timeLeft := Some 0 \<rparr>)
             else rerender s (s\<lparr> timeLeft := Some (prev - 1) \<rparr>))"

definition retake :: "quiz_state \<Rightarrow> quiz_state" where
  "retake s =
     rerender s (s\<lparr> submitted := False, results := None, quizStarted := False,
                    qz_answers := [] \<rparr>)"

text \<open>Unmounting runs the cleanup of the effect.\<close>

definition unmount :: "quiz_state \<Rightarrow> quiz_state" where
  "unmount s = s\<lparr> timer := None, mounted := False \<rparr>"

datatype quiz_event =
    ModuleLoaded nat
  | StartQuiz
  | AnswerSelect nat string
  | ClickSubmit
  | Tick
  | SubmitResolved jsval
  | SubmitRejected
  | Retake
  | Unmount

fun quiz_step :: "quiz_state \<Rightarrow> quiz_event \<Rightarrow> quiz_state" where
  "quiz_step s (ModuleLoaded n) = (if mounted s then loadModule_done n s else s)"
| "quiz_step s StartQuiz = (if mounted s then startQuiz s else s)"
| "quiz_step s (AnswerSelect i a) = (if mounted s then QuizPage_handleAnswerSelect i a s else s)"
| "quiz_step s ClickSubmit = (if mounted s then click_submit s else s)"
| "quiz_step s Tick = (if mounted s then tick s else s)"
| "quiz_step s (SubmitResolved r) = (if mounted s then handleSubmit_resolved r s else s)"
| "quiz_step s SubmitRejected = (if mounted s then handleSubmit_rejected s else s)"
| "quiz_step s Retake = (if mounted s then retake s else s)"
| "quiz_step s Unmount = unmount s"

definition quiz_run :: "quiz_event list \<Rightarrow> quiz_state" where
  "quiz_run events = foldl quiz_step initial_quiz_state events"

text \<open>The interval is set exactly when the effect's condition holds.\<close>

definition timer_consistent :: "quiz_state \<Rightarrow> bool" where
  "timer_consistent s =
     ((timer s \<noteq> None) =
        (mounted s \<and> quizStarted s \<and> (case timeLeft s of None \<Rightarrow> False | Some n \<Rightarrow> 0 < n)
           \<and> \<not> submitted s))"


section \<open>The quiz submission endpoint\<close>







section \<open>The score of a quiz submission\<close>












section \<open>Which comparison decides that an answer is correct\<close>






section \<open>The response interceptor\<close>

lemma logout_storage:
  "localStorage (logout b) k = (if k = ''authToken'' then None else localStorage b k)"
  by (simp add: logout_def)

lemma logout_href: "location_href (logout b) = location_href b"
  by (simp add: logout_def)

text \<open>
  C3. Whatever the request, a rejection whose response has status 401 removes
  \<open>authToken\<close> from \<open>localStorage\<close> (and nothing else), sets the location to \<open>/login\<close>
  and is still passed on as the same rejection. A rejection with another status, or with
  no response at all, and a fulfilled response leave the browser state as it was.
\<close>

theorem unauthorized_logs_out_and_redirects:
  "(net (request_interceptor b config) = Inl e \<and> response_status e = Some 401 \<longrightarrow>
      fst (api_send net config b) = Inl e
      \<and> localStorage (snd (api_send net config b)) ''authToken'' = None
      \<and> (\<forall>k. k \<noteq> ''authToken'' \<longrightarrow>
            localStorage (snd (api_send net config b)) k = localStorage b k)
      \<and> location_href (snd (api_send net config b)) = ''/login'')
   \<and> (net (request_interceptor b config) = Inl e \<and> response_status e \<noteq> Some 401 \<longrightarrow>
      api_send net config b = (Inl e, b))
   \<and> (net (request_interceptor b config) = Inr r \<longrightarrow>
      api_send net config b = (Inr r, b))"
  by (simp add: api_send_def response_rejected_def response_fulfilled_def logout_storage)

theorem unauthorized_logs_out_and_redirects_witness:
  "fst (api_send (\<lambda>q. Inl demo_error_401) (deleteModule_request (NumId 7)) demo_browser)
      = Inl demo_error_401
   \<and> localStorage (snd (api_send (\<lambda>q. Inl demo_error_401) (deleteModule_request (NumId 7))
        demo_browser)) ''authToken'' = None
   \<and> location_href (snd (api_send (\<lambda>q. Inl demo_error_401) (deleteModule_request (NumId 7))
        demo_browser)) = ''/login''
   \<and> localStorage demo_browser ''authToken'' = Some ''abc.def.ghi''
   \<and> api_send (\<lambda>q. Inl demo_error_500) (deleteModule_request (NumId 7)) demo_browser
      = (Inl demo_error_500, demo_browser)
   \<and> api_send (\<lambda>q. Inr \<lparr> status = 200, data = JNull \<rparr>) (deleteModule_request (NumId 7))
        demo_browser
      = (Inr \<lparr> status = 200, data = JNull \<rparr>, demo_browser)"
  using unauthorized_logs_out_and_redirects
      [of "\<lambda>q. Inl demo_error_401" demo_browser "deleteModule_request (NumId 7)"
          demo_error_401 "\<lparr> status = 200, data = JNull \<rparr>"]
    unauthorized_logs_out_and_redirects
      [of "\<lambda>q. Inl demo_error_500" demo_browser "deleteModule_request (NumId 7)"
          demo_error_500 "\<lparr> status = 200, data = JNull \<rparr>"]
    unauthorized_logs_out_and_redirects
      [of "\<lambda>q. Inr \<lparr> status = 200, data = JNull \<rparr>" demo_browser
          "deleteModule_request (NumId 7)" demo_error_500 "\<lparr> status = 200, data = JNull \<rparr>"]
  by (simp add: demo_error_401_def demo_error_500_def demo_browser_def response_status_def)


section \<open>The payload of module generation\<close>

lemma generateModule_body:
  "body (generateModule_request p d n k)
     = Some [(''prompt'', JStr p),
             (''background_knowledge'', JStr (case k of None \<Rightarrow> [] | Some k' \<Rightarrow> k')),
             (''user_id'', JNull)]"
  by (simp add: generateModule_request_def)

lemma generateModule_sends_request:
  "generateModule p d n k net b
     = api_method_call M_generateModule (generateModule_request p d n k) net b"
  by (simp add: generateModule_def)

text \<open>
  C4. \<open>generateModule('Python Lists', 'hard', 60)\<close>, as the dashboard calls it, posts
  \<open>prompt\<close>, \<open>background_knowledge\<close> and \<open>user_id\<close>: the difficulty and the duration the
  caller supplied are not in the payload. The older service sends both.
\<close>

theorem generateModule_drops_difficulty_and_duration:
  "body (generateModule_request ''Python Lists'' (Some ''hard'') (Some 60) None)
     = Some [(''prompt'', JStr ''Python Lists''),
             (''background_knowledge'', JStr ''''),
             (''user_id'', JNull)]
   \<and> map_of (the (body (generateModule_request ''Python Lists'' (Some ''hard'') (Some 60) None)))
        ''difficulty'' = None
   \<and> map_of (the (body (generateModule_request ''Python Lists'' (Some ''hard'') (Some 60) None)))
        ''duration'' = None
   \<and> map_of (the (body (generateModule_old_request (JNum 1) ''Python Lists'' (Some ''hard'')
        (Some 60)))) ''difficulty'' = Some (JStr ''hard'')
   \<and> map_of (the (body (generateModule_old_request (JNum 1) ''Python Lists'' (Some ''hard'')
        (Some 60)))) ''duration'' = Some (JNum 60)"
  by (simp add: generateModule_request_def generateModule_old_request_def)


section \<open>Normalised errors\<close>

lemma handleError_fields:
  "api_status (handleError e d) = response_status e \<and> originalError (handleError e d) = e"
  by (simp add: handleError_def Let_def)

lemma method_catch_message:
  "method_catch m e =
     \<lparr> api_message =
         (if truthy (get_prop (response_data e) ''detail'') then get_prop (response_data e) ''detail''
          else if truthy (get_prop (response_data e) ''message'')
            then get_prop (response_data e) ''message''
          else if truthy (err_message e) then err_message e
          else JStr (defaultMessage m)),
       api_status = response_status e,
       originalError = e \<rparr>"
  by (simp add: method_catch_def handleError_def js_or_def)

lemma api_method_call_rejects:
  assumes "fst (api_method_call m config net b) = Inl x"
  shows "\<exists>e'. net (request_interceptor b config) = Inl e' \<and> x = method_catch m e'"
proof (cases "net (request_interceptor b config)")
  case (Inl e')
  then have "fst (api_method_call m config net b) = Inl (method_catch m e')"
    by (simp add: api_method_call_def api_send_def response_rejected_def)
  with assms Inl show ?thesis by simp
next
  case (Inr r)
  then have "fst (api_method_call m config net b) = Inr (data r)"
    by (simp add: api_method_call_def api_send_def response_fulfilled_def)
  with assms show ?thesis by simp
qed

text \<open>
  C6. What a method throws is the one object built by \<open>_handleError\<close>: its message is
  the first truthy value among \<open>response.data.detail\<close>, \<open>response.data.message\<close> and the
  caught error's \<open>message\<close>, else the method's default; its \<open>status\<close> is the status of the
  response, if there is one; its \<open>originalError\<close> is the caught error. A method that
  rejects does so with this object, built from the error its request was rejected with.
\<close>

theorem thrown_error_is_normalised:
  "method_catch m e =
     \<lparr> api_message =
         (if truthy (get_prop (response_data e) ''detail'') then get_prop (response_data e) ''detail''
          else if truthy (get_prop (response_data e) ''message'')
            then get_prop (response_data e) ''message''
          else if truthy (err_message e) then err_message e
          else JStr (defaultMessage m)),
       api_status = response_status e,
       originalError = e \<rparr>
   \<and> (fst (api_method_call m config net b) = Inl x \<longrightarrow>
        (\<exists>e'. net (request_interceptor b config) = Inl e' \<and> x = method_catch m e'))"
  using method_catch_message [of m e] api_method_call_rejects [of m config net b x]
  by blast

theorem thrown_error_is_normalised_witness:
  "method_catch M_deleteModule demo_error_500 =
     \<lparr> api_message = JStr ''Database unavailable'',
       api_status = Some 500,
       originalError = demo_error_500 \<rparr>
   \<and> method_catch M_deleteModule demo_error_401 =
     \<lparr> api_message = JStr ''Request failed with status code 401'',
       api_status = Some 401,
       originalError = demo_error_401 \<rparr>
   \<and> method_catch M_deleteModule \<lparr> response = None, err_message = JStr [] \<rparr> =
     \<lparr> api_message = JStr ''Failed to delete module'',
       api_status = None,
       originalError = \<lparr> response = None, err_message = JStr [] \<rparr> \<rparr>
   \<and> fst (api_method_call M_deleteModule (deleteModule_request (NumId 7))
          (\<lambda>q. Inl demo_error_500) demo_browser)
      = Inl (method_catch M_deleteModule demo_error_500)"
proof -
  have sent: "fst (api_method_call M_deleteModule (deleteModule_request (NumId 7))
          (\<lambda>q. Inl demo_error_500) demo_browser) = Inl (method_catch M_deleteModule demo_error_500)"
    by (simp add: api_method_call_def api_send_def response_rejected_def split: prod.splits)
  show ?thesis
    using thrown_error_is_normalised [of M_deleteModule demo_error_500 _ _ _ _]
      thrown_error_is_normalised [of M_deleteModule demo_error_401 _ _ _ _]
      thrown_error_is_normalised
        [of M_deleteModule "\<lparr> response = None, err_message = JStr [] \<rparr>"
            "deleteModule_request (NumId 7)" "\<lambda>q. Inl demo_error_500" demo_browser
            "method_catch M_deleteModule demo_error_500"]
      sent
    by (simp add: demo_error_500_def demo_error_401_def response_data_def response_status_def)
qed

section \<open>Deleting a module from the dashboard\<close>

lemma handleDeleteModule_success:
  assumes "fst (deleteModule moduleId net b) = Inr r"
  shows "modules (fst (handleDeleteModule True moduleId t net (s, b)))
           = filter (\<lambda>m. id_m m \<noteq> moduleId) (modules s)"
proof -
  obtain b' where "deleteModule moduleId net b = (Inr r, b')"
    using assms by (cases "deleteModule moduleId net b") simp
  then show ?thesis by (simp add: handleDeleteModule_def)
qed

lemma handleDeleteModule_failure:
  assumes "fst (deleteModule moduleId net b) = Inl e"
  shows "modules (fst (handleDeleteModule True moduleId t net (s, b))) = modules s"
proof -
  obtain b' where "deleteModule moduleId net b = (Inl e, b')"
    using assms by (cases "deleteModule moduleId net b") simp
  then show ?thesis by (simp add: handleDeleteModule_def)
qed

text \<open>
  C7. When the user confirmed and \<open>deleteModule\<close> succeeded, the module list is the old
  list without the modules of the deleted id: no module of that id is left, and the
  modules of every other id are all still there, unchanged and in their order. When the
  user did not confirm, or the call failed, the list is as it was.
\<close>

theorem delete_removes_exactly_the_module:
  "(fst (deleteModule moduleId net b) = Inr r \<longrightarrow>
      modules (fst (handleDeleteModule True moduleId t net (s, b)))
        = filter (\<lambda>m. id_m m \<noteq> moduleId) (modules s)
      \<and> (\<forall>m \<in> set (modules (fst (handleDeleteModule True moduleId t net (s, b)))).
            id_m m \<noteq> moduleId)
      \<and> (\<forall>m. id_m m \<noteq> moduleId \<longrightarrow>
            count_list (modules (fst (handleDeleteModule True moduleId t net (s, b)))) m
              = count_list (modules s) m))
   \<and> (fst (deleteModule moduleId net b) = Inl e \<longrightarrow>
      modules (fst (handleDeleteModule True moduleId t net (s, b))) = modules s)
   \<and> handleDeleteModule False moduleId t net (s, b) = (s, b)"
proof (intro conjI impI)
  assume ok: "fst (deleteModule moduleId net b) = Inr r"
  note eq = handleDeleteModule_success [OF ok, of t s]
  show "modules (fst (handleDeleteModule True moduleId t net (s, b)))
        = filter (\<lambda>m. id_m m \<noteq> moduleId) (modules s)"
    by (rule eq)
  show "\<forall>m \<in> set (modules (fst (handleDeleteModule True moduleId t net (s, b)))).
          id_m m \<noteq> moduleId"
    by (simp add: eq)
  show "\<forall>m. id_m m \<noteq> moduleId \<longrightarrow>
            count_list (modules (fst (handleDeleteModule True moduleId t net (s, b)))) m
              = count_list (modules s) m"
  proof (intro allI impI)
    fix m :: module_item
    assume "id_m m \<noteq> moduleId"
    then have "count_list (filter (\<lambda>m. id_m m \<noteq> moduleId) xs) m = count_list xs m" for xs
      by (induction xs) auto
    then show "count_list (modules (fst (handleDeleteModule True moduleId t net (s, b)))) m
              = count_list (modules s) m"
      by (simp add: eq)
  qed
next
  assume "fst (deleteModule moduleId net b) = Inl e"
  then show "modules (fst (handleDeleteModule True moduleId t net (s, b))) = modules s"
    by (rule handleDeleteModule_failure)
next
  show "handleDeleteModule False moduleId t net (s, b) = (s, b)"
    by (simp add: handleDeleteModule_def)
qed

theorem delete_removes_exactly_the_module_witness:
  "fst (deleteModule (NumId 7) (\<lambda>q. Inr \<lparr> status = 200, data = JNull \<rparr>) demo_browser) = Inr JNull
   \<and> map id_m (modules (fst (handleDeleteModule True (NumId 7) ''JavaScript ES6 Features''
        (\<lambda>q. Inr \<lparr> status = 200, data = JNull \<rparr>)
        (\<lparr> modules = demo_modules, alerts = [] \<rparr>, demo_browser))))
      = [NumId 3, StrId ''7'']
   \<and> modules (fst (handleDeleteModule True (NumId 7) ''JavaScript ES6 Features''
        (\<lambda>q. Inl demo_error_500)
        (\<lparr> modules = demo_modules, alerts = [] \<rparr>, demo_browser)))
      = demo_modules"
proof -
  let ?ok = "\<lambda>q::request. (Inr \<lparr> status = 200, data = JNull \<rparr> :: axios_error + http_response)"
  let ?ko = "\<lambda>q::request. (Inl demo_error_500 :: axios_error + http_response)"
  let ?s = "\<lparr> modules = demo_modules, alerts = [] \<rparr>"
  have ok: "fst (deleteModule (NumId 7) ?ok demo_browser) = Inr JNull"
    by (simp add: deleteModule_def api_method_call_def api_send_def response_fulfilled_def)
  have ko: "fst (deleteModule (NumId 7) ?ko demo_browser)
              = Inl (method_catch M_deleteModule demo_error_500)"
    by (simp add: deleteModule_def api_method_call_def api_send_def response_rejected_def)
  have "modules (fst (handleDeleteModule True (NumId 7) ''JavaScript ES6 Features'' ?ok
          (?s, demo_browser))) = filter (\<lambda>m. id_m m \<noteq> NumId 7) (modules ?s)"
    by (rule delete_removes_exactly_the_module
          [THEN conjunct1, THEN mp, OF ok, THEN conjunct1])
  then have first: "map id_m (modules (fst (handleDeleteModule True (NumId 7)
        ''JavaScript ES6 Features'' ?ok (?s, demo_browser)))) = [NumId 3, StrId ''7'']"
    by (simp add: demo_modules_def)
  have second: "modules (fst (handleDeleteModule True (NumId 7) ''JavaScript ES6 Features'' ?ko
        (?s, demo_browser))) = modules ?s"
    by (rule delete_removes_exactly_the_module
          [THEN conjunct2, THEN conjunct1, THEN mp, OF ko])
  from ok first second show ?thesis by simp
qed


section \<open>Validation of the topic\<close>






section \<open>The two module-creation payloads\<close>

text \<open>
  C9. The dashboard, through \<open>generateModule\<close> of the current service, and
  \<open>EnhancedModules\<close> post to the same path with different payloads: the first sends
  \<open>prompt\<close>, \<open>background_knowledge\<close> and \<open>user_id\<close> (neither difficulty nor duration,
  whatever the form holds), the second \<open>topic\<close> and \<open>difficulty\<close>. The difficulty values
  the two forms offer have nothing in common.
\<close>

theorem creation_payloads_disagree:
  "url (handleCreateModule_request form) = url (createModule_request b d)
   \<and> map fst (the (body (handleCreateModule_request form)))
        = [''prompt'', ''background_knowledge'', ''user_id'']
   \<and> map_of (the (body (handleCreateModule_request form))) ''prompt'' = Some (JStr (prompt form))
   \<and> map fst (the (body (createModule_request b d))) = [''topic'', ''difficulty'']
   \<and> map_of (the (body (createModule_request b d))) ''topic'' = Some (JStr (topic d))
   \<and> map_of (the (body (createModule_request b d))) ''difficulty'' = Some (JStr (nm_difficulty d))
   \<and> body (handleCreateModule_request form) \<noteq> body (createModule_request b d)
   \<and> Dashboard_difficulty_options = [''easy'', ''medium'', ''hard'']
   \<and> EnhancedModules_difficulty_options = [''Beginner'', ''Intermediate'', ''Advanced'']
   \<and> set Dashboard_difficulty_options \<inter> set EnhancedModules_difficulty_options = {}
   \<and> form_difficulty initial_newModuleForm \<in> set Dashboard_difficulty_options
   \<and> nm_difficulty initial_newModuleData \<in> set EnhancedModules_difficulty_options"
  by (simp add: handleCreateModule_request_def generateModule_request_def
      createModule_request_def newModuleData_json_def Dashboard_difficulty_options_def
      EnhancedModules_difficulty_options_def initial_newModuleForm_def
      initial_newModuleData_def)

section \<open>\<open>isAuthenticated\<close> never throws\<close>

lemma isAuthenticated_try_true:
  "isAuthenticated_try atob JSON_parse coerce now token = Inr True \<longleftrightarrow>
     (\<exists>decoded payload n.
        atob (payload_segment token) = Some decoded
        \<and> JSON_parse decoded = Some payload
        \<and> payload \<noteq> JNull \<and> payload \<noteq> JUndefined
        \<and> ToNumber coerce (get_prop payload ''exp'') = Some n
        \<and> js_gt (js_times n 1000) now)"
  by (auto simp: isAuthenticated_try_def split: option.splits)

lemma isAuthenticated_returns:
  "\<exists>r. isAuthenticated atob JSON_parse coerce now b = Inr r"
  by (auto simp: isAuthenticated_def split: option.splits sum.splits)

lemma isAuthenticated_true:
  "isAuthenticated atob JSON_parse coerce now b = Inr True \<longleftrightarrow>
     (\<exists>token. localStorage b ''authToken'' = Some token \<and> token \<noteq> []
        \<and> isAuthenticated_try atob JSON_parse coerce now token = Inr True)"
  by (auto simp: isAuthenticated_def split: option.splits sum.splits)

text \<open>
  C10. Whatever is stored under \<open>authToken\<close>, and whatever \<open>atob\<close>, \<open>JSON.parse\<close> and the
  conversion to a number do with it, \<open>isAuthenticated\<close> returns a Boolean and throws
  nothing. It returns \<open>true\<close> exactly when a non-empty token is stored, its payload
  segment decodes, the decoded text parses to a value that has properties, and \<open>exp\<close> of
  that value, as a number, times 1000 is greater than the current time.
\<close>

theorem isAuthenticated_total_and_sound:
  "(\<exists>r. isAuthenticated atob JSON_parse coerce now b = Inr r)
   \<and> (isAuthenticated atob JSON_parse coerce now b = Inr True \<longleftrightarrow>
        (\<exists>token decoded payload n.
           localStorage b ''authToken'' = Some token \<and> token \<noteq> []
           \<and> atob (payload_segment token) = Some decoded
           \<and> JSON_parse decoded = Some payload
           \<and> payload \<noteq> JNull \<and> payload \<noteq> JUndefined
           \<and> ToNumber coerce (get_prop payload ''exp'') = Some n
           \<and> js_gt (js_times n 1000) now))"
  unfolding isAuthenticated_true isAuthenticated_try_true
  using isAuthenticated_returns [of atob JSON_parse coerce now b] by blast

lemma demo_payload_segment:
  "payload_segment ''eyJhbGciOiJIUzI1NiJ9.eyJleHAiOjk5fQ.c2ln'' = ''eyJleHAiOjk5fQ''"
  by (simp add: payload_segment_def)

theorem isAuthenticated_total_and_sound_witness:
  "isAuthenticated demo_atob demo_JSON_parse (\<lambda>v. Some NaN) 98000 demo_token_browser = Inr True
   \<and> isAuthenticated demo_atob demo_JSON_parse (\<lambda>v. Some NaN) 99000 demo_token_browser = Inr False
   \<and> isAuthenticated demo_atob demo_JSON_parse (\<lambda>v. Some NaN) 98000
        (demo_token_browser\<lparr> localStorage := [''authToken'' \<mapsto> ''not a token''] \<rparr>) = Inr False"
proof -
  have seg: "demo_atob (payload_segment ''eyJhbGciOiJIUzI1NiJ9.eyJleHAiOjk5fQ.c2ln'')
               = Some demo_payload_text"
    by (simp only: demo_payload_segment) (simp add: demo_atob_def)
  have parse: "demo_JSON_parse demo_payload_text = Some (JObj [(''exp'', JNum 99)])"
    by (simp add: demo_JSON_parse_def)
  have num: "ToNumber (\<lambda>v. Some NaN) (get_prop (JObj [(''exp'', JNum 99)]) ''exp'') = Some (Num 99)"
    by (simp add: ToNumber_def)
  have first: "isAuthenticated demo_atob demo_JSON_parse (\<lambda>v. Some NaN) 98000 demo_token_browser
                 = Inr True"
    using isAuthenticated_total_and_sound
        [of demo_atob demo_JSON_parse "\<lambda>v. Some NaN" 98000 demo_token_browser,
         THEN conjunct2, THEN iffD2]
      seg parse num
    by (simp add: demo_token_browser_def js_gt_def js_times_def)
  have second: "isAuthenticated demo_atob demo_JSON_parse (\<lambda>v. Some NaN) 99000 demo_token_browser
                 = Inr False"
    using seg parse num
    by (simp add: isAuthenticated_def isAuthenticated_try_def demo_token_browser_def
        js_gt_def js_times_def)
  have "payload_segment ''not a token'' = ''undefined''"
    by (simp add: payload_segment_def)
  then have third: "isAuthenticated demo_atob demo_JSON_parse (\<lambda>v. Some NaN) 98000
        (demo_token_browser\<lparr> localStorage := [''authToken'' \<mapsto> ''not a token''] \<rparr>) = Inr False"
    by (simp add: isAuthenticated_def isAuthenticated_try_def demo_atob_def)
  from first second third show ?thesis by simp
qed

section \<open>The countdown and the automatic submission\<close>

lemma tick_decrements:
  assumes "timer s = Some captured" and "timeLeft s = Some n" and "1 < n"
  shows "timeLeft (tick s) = Some (n - 1) \<and> submissions (tick s) = submissions s
         \<and> qz_answers (tick s) = qz_answers s"
  using assms by (simp add: tick_def rerender_def timer_effect_def Let_def)

lemma tick_expiry:
  assumes "timer s = Some captured" and "timeLeft s = Some 1"
  shows "submissions (tick s) = submissions s @ [captured] \<and> timeLeft (tick s) = Some 0
         \<and> timer (tick s) = None"
  using assms by (simp add: tick_def rerender_def timer_effect_def handleSubmit_def Let_def)

lemma tick_renews_closure:
  assumes "timer s = Some captured" and "timeLeft s = Some n" and "1 < n"
    and "quizStarted s" and "\<not> submitted s"
  shows "timer (tick s) = Some (qz_answers s)"
  using assms by (auto simp: tick_def rerender_def timer_effect_def Let_def)

lemma answer_keeps_closure:
  "timer (QuizPage_handleAnswerSelect i a s) = timer s"
  by (simp add: QuizPage_handleAnswerSelect_def rerender_def)

lemma unmount_cancels: "timer (unmount s) = None"
  by (simp add: unmount_def)

lemma timer_consistent_rerender:
  assumes "timer_consistent old" and "mounted old" and "mounted new" and "timer new = timer old"
  shows "timer_consistent (rerender old new)"
  using assms by (auto simp: timer_consistent_def rerender_def timer_effect_def)

lemma timer_consistent_step:
  assumes "timer_consistent s"
  shows "timer_consistent (quiz_step s e)"
proof (cases "mounted s")
  case False
  with assms show ?thesis
    by (cases e) (simp_all add: unmount_def timer_consistent_def)
next
  case True
  show ?thesis
  proof (cases e)
    case (ModuleLoaded n)
    with True assms show ?thesis
      by (simp add: loadModule_done_def timer_consistent_rerender)
  next
    case StartQuiz
    with True assms show ?thesis
      by (simp add: startQuiz_def timer_consistent_rerender)
  next
    case (AnswerSelect i a)
    with True assms show ?thesis
      by (simp add: QuizPage_handleAnswerSelect_def timer_consistent_rerender)
  next
    case ClickSubmit
    with True assms show ?thesis
      by (simp add: click_submit_def handleSubmit_def timer_consistent_def)
  next
    case Tick
    with True assms show ?thesis
      by (cases "timer s")
        (simp_all add: tick_def Let_def handleSubmit_def timer_consistent_rerender)
  next
    case (SubmitResolved r)
    with True assms show ?thesis
      by (simp add: handleSubmit_resolved_def timer_consistent_rerender)
  next
    case SubmitRejected
    with True assms show ?thesis
      by (simp add: handleSubmit_rejected_def timer_consistent_def)
  next
    case Retake
    with True assms show ?thesis
      by (simp add: retake_def timer_consistent_rerender)
  next
    case Unmount
    then show ?thesis
      by (simp add: unmount_def timer_consistent_def)
  qed
qed

lemma timer_consistent_foldl:
  "timer_consistent s \<Longrightarrow> timer_consistent (foldl quiz_step s events)"
  by (induction events arbitrary: s) (simp_all add: timer_consistent_step)

lemma timer_consistent_run: "timer_consistent (quiz_run events)"
  unfolding quiz_run_def
  by (rule timer_consistent_foldl) (simp add: timer_consistent_def initial_quiz_state_def)

lemma submission_cancels:
  assumes "timer_consistent s"
  shows "timer (handleSubmit_resolved r s) = None"
  using assms
  by (auto simp: handleSubmit_resolved_def rerender_def timer_effect_def timer_consistent_def)

text \<open>
  C5. A quiz of one question is started with 120 seconds. After 119 ticks one second is
  left; the user then selects an answer, and the last tick submits the quiz. The
  submission carries the empty answers of the render of the 119th tick, not the answer
  selected since: selecting an answer does not renew the interval's callback.
\<close>

theorem timeout_submits_stale_answers:
  "timeLeft (quiz_run ([ModuleLoaded 1, StartQuiz] @ replicate 119 Tick)) = Some 1
   \<and> qz_answers (quiz_run ([ModuleLoaded 1, StartQuiz] @ replicate 119 Tick
        @ [AnswerSelect 0 ''Option A'', Tick])) = [(0, ''Option A'')]
   \<and> submissions (quiz_run ([ModuleLoaded 1, StartQuiz] @ replicate 119 Tick
        @ [AnswerSelect 0 ''Option A'', Tick])) = [[]]
   \<and> timeLeft (quiz_run ([ModuleLoaded 1, StartQuiz] @ replicate 119 Tick
        @ [AnswerSelect 0 ''Option A'', Tick])) = Some 0
   \<and> timer (quiz_run ([ModuleLoaded 1, StartQuiz] @ replicate 119 Tick
        @ [AnswerSelect 0 ''Option A'', Tick])) = None"
  by code_simp

end
